theory Spec2Isabelle
  imports Complex_Main
begin

section \<open>The SPAM example notebook (examples/spam\_example.ipynb)\<close>

text \<open>
  The notebook defines three functions of its own (\<open>binseq\<close>, \<open>probs_from_counts\<close> and
  \<open>JSD\<close>, cell 17) and calls the \<open>SpamCorrecter\<close> class of \<open>pytket.utils.spam\<close>, whose
  code is not part of the notebook.

  Conventions of the embedding:
  \<^item> a numpy array of float64 is a \<open>real list\<close> and its arithmetic is exact: the rounding,
    overflow and underflow of binary64 are not modelled, and neither is the 64-bit integer
    arithmetic of \<open>np.sum\<close>. The numbers that cell 17 computes can therefore differ from the
    numbers of the model, and no general property of them is stated below: the properties
    proved are of the control flow (which calls return, which raise, and in which order calls
    are made) and of the symmetry of \<open>JSD\<close>, which rests on the commutativity of addition
    alone;
  \<^item> a numpy result that holds an IEEE special value (\<open>inf\<close> or \<open>nan\<close>, produced with a
    RuntimeWarning and no exception) is \<open>None\<close>; every operation on it in these functions
    yields a special value again, so \<open>None\<close> is passed on;
  \<^item> a Python exception is the \<open>Inl\<close> branch of a sum;
  \<^item> Python's unbounded \<open>int\<close> is \<open>int\<close>.
\<close>

datatype py_error = IndexError | ValueError | TypeError

subsection \<open>numpy and scipy operations used by cell 17\<close>

text \<open>\<open>np.linalg.norm(P, ord=1)\<close> of a one-dimensional array: the sum of the absolute values.\<close>

definition norm1 :: "real list \<Rightarrow> real" where
  "norm1 P = sum_list (map abs P)"

text \<open>
  \<open>a / c\<close> for an array \<open>a\<close> and a scalar \<open>c\<close>. Dividing by zero raises nothing: each
  element becomes \<open>inf\<close>, \<open>-inf\<close> or \<open>nan\<close>. An empty array has no element and stays empty.
\<close>

definition np_divide :: "real list \<Rightarrow> real \<Rightarrow> real list option" where
  "np_divide a c = (if c = 0 then (if a = [] then Some [] else None)
                    else Some (map (\<lambda>x. x / c) a))"

text \<open>
  \<open>scipy.special.rel_entr(x, y)\<close>: \<open>x * log(x / y)\<close> for \<open>x > 0\<close> and \<open>y > 0\<close>, \<open>0\<close> for
  \<open>x = 0\<close> and \<open>y \<ge> 0\<close>, and \<open>inf\<close> otherwise.
\<close>

definition rel_entr :: "real \<Rightarrow> real \<Rightarrow> real option" where
  "rel_entr x y = (if 0 < x \<and> 0 < y then Some (x * ln (x / y))
                   else if x = 0 \<and> 0 \<le> y then Some 0
                   else None)"

text \<open>
  \<open>scipy.stats.entropy(pk, qk)\<close> (scipy 1.4, the release of the notebook's Python 3.7
  kernel): both arguments are divided by their sums, arguments of different shapes raise
  ValueError, and the result is the sum of \<open>rel_entr(pk, qk)\<close>.
\<close>

definition entropy :: "real list \<Rightarrow> real list \<Rightarrow> py_error + real option" where
  "entropy pk qk =
     (if length qk \<noteq> length pk then Inl ValueError
      else Inr (case np_divide pk (sum_list pk) of
                  None \<Rightarrow> None
                | Some pk' \<Rightarrow>
                   (case np_divide qk (sum_list qk) of
                      None \<Rightarrow> None
                    | Some qk' \<Rightarrow>
                        map_option sum_list (those (map2 rel_entr pk' qk')))))"

subsection \<open>JSD (cell 17)\<close>

text \<open>
  \<^verbatim>\<open>
  def JSD(P, Q):
      _P = P / np.linalg.norm(P, ord=1)
      _Q = Q / np.linalg.norm(Q, ord=1)
      _M = 0.5 * (_P + _Q)
      return 0.5 * (entropy(_P, _M) + entropy(_Q, _M))
  \<close>
  \<open>_P + _Q\<close> raises ValueError for arrays whose lengths differ and cannot be broadcast; where
  one of them has length 1 the sum is broadcast and \<open>entropy\<close> raises ValueError for the
  shapes. So arrays of different lengths raise in each case.
\<close>

definition half_sum :: "real option \<Rightarrow> real option \<Rightarrow> real option" where
  "half_sum a b = (case (a, b) of (Some x, Some y) \<Rightarrow> Some (0.5 * (x + y)) | _ \<Rightarrow> None)"

definition JSD :: "real list \<Rightarrow> real list \<Rightarrow> py_error + real option" where
  "JSD P Q =
     (if length P \<noteq> length Q then Inl ValueError
      else (case (np_divide P (norm1 P), np_divide Q (norm1 Q)) of
              (Some P', Some Q') \<Rightarrow>
                (let M = map2 (\<lambda>p q. 0.5 * (p + q)) P' Q' in
                 case entropy P' M of
                   Inl e \<Rightarrow> Inl e
                 | Inr e1 \<Rightarrow>
                    (case entropy Q' M of
                       Inl e \<Rightarrow> Inl e
                     | Inr e2 \<Rightarrow> Inr (half_sum e1 e2)))
            | _ \<Rightarrow> Inr None))"

subsection \<open>binseq and probs\_from\_counts (cell 17)\<close>

text \<open>
  \<open>str(e)\<close> of a Python \<open>int\<close>: its decimal digits, after a minus sign when it is negative.
\<close>

definition digit_char :: "nat \<Rightarrow> char" where
  "digit_char d = ''0123456789'' ! d"

fun str_nat :: "nat \<Rightarrow> string" where
  "str_nat n = (if n < 10 then [digit_char n] else str_nat (n div 10) @ [digit_char (n mod 10)])"

declare str_nat.simps [simp del]

definition str_int :: "int \<Rightarrow> string" where
  "str_int e = (if e < 0 then CHR ''-'' # str_nat (nat (- e)) else str_nat (nat e))"

text \<open>\<open>''.join(str(e) for e in x)\<close> for a tuple \<open>x\<close> of ints.\<close>

definition join_str :: "int list \<Rightarrow> string" where
  "join_str x = concat (map str_int x)"

text \<open>
  \<^verbatim>\<open>
  def binseq(k):
      return [''.join(x) for x in itertools.product('01', repeat=k)]
  \<close>
  \<open>itertools.product('01', repeat=k)\<close> yields the \<open>k\<close>-tuples over \<open>'0'\<close> and \<open>'1'\<close> with the
  last position changing fastest; for \<open>k = 0\<close> it yields the empty tuple alone.
\<close>

fun binseq :: "nat \<Rightarrow> string list" where
  "binseq 0 = [[]]"
| "binseq (Suc k) = map ((#) CHR ''0'') (binseq k) @ map ((#) CHR ''1'') (binseq k)"

text \<open>
  \<^verbatim>\<open>
  def probs_from_counts(counts):
      counts_dict = dict()
      for x in counts:
          counts_dict[''.join(str(e) for e in x)]=counts[x]
      converted = []
      binary_strings = binseq(len(list(counts.keys())[0]))
      for b in binary_strings:
          converted.append(counts_dict.get(b,0))
      return converted / np.sum(converted)
  \<close>
  \<open>counts\<close> is a dict from tuples of ints to ints, as the backends return it: an
  association list in insertion order, whose keys are distinct in every dict. The first loop
  visits each key with its value; \<open>list(counts.keys())[0]\<close> raises IndexError for the empty
  dict, and no other statement of the function raises IndexError.

  The last line is numpy's. A count below \<open>-2^63\<close> or from \<open>2^64\<close> on makes \<open>converted\<close> an
  array of Python objects, \<open>np.sum\<close> then returns a Python int, and dividing a list by it
  raises TypeError. Otherwise the line raises nothing: a total of zero gives special values.
  The numbers it returns are idealised here: \<open>np.sum\<close> adds 64-bit integers and wraps around
  and the division rounds to binary64, where the model adds and divides exactly.
\<close>

type_synonym counts = "(int list \<times> int) list"

definition counts_dict_of :: "counts \<Rightarrow> (string \<rightharpoonup> int)" where
  "counts_dict_of counts = fold (\<lambda>(x, c) d. d(join_str x \<mapsto> c)) counts Map.empty"

definition dict_get :: "(string \<rightharpoonup> int) \<Rightarrow> string \<Rightarrow> int \<Rightarrow> int" where
  "dict_get d b dflt = (case d b of None \<Rightarrow> dflt | Some c \<Rightarrow> c)"

definition probs_from_counts :: "counts \<Rightarrow> py_error + real list option" where
  "probs_from_counts counts =
     (let counts_dict = counts_dict_of counts in
      case counts of
        [] \<Rightarrow> Inl IndexError
      | (k, _) # _ \<Rightarrow>
          (let binary_strings = binseq (length k);
               converted = map (\<lambda>b. dict_get counts_dict b 0) binary_strings
           in if list_ex (\<lambda>c. c < - (2 ^ 63) \<or> 2 ^ 64 \<le> c) converted then Inl TypeError
              else Inr (np_divide (map real_of_int converted) (real_of_int (sum_list converted)))))"

subsection \<open>The calls of the notebook to SpamCorrecter\<close>

text \<open>
  The code cells run in the order of their execution counts. The calls they make to the
  \<open>SpamCorrecter\<close> object, with the execution count of the cell: the constructor (7),
  \<open>calibration_circuits\<close> (8), \<open>calculate_matrices\<close> (11, 23) and \<open>correct_counts\<close>
  (15, 20 and twice in 25), whose \<open>method\<close> keyword is absent or \<open>'bayesian'\<close>.
\<close>

datatype spam_call =
    Construct
  | CalibrationCircuits
  | CalculateMatrices
  | CorrectCounts "string option"

definition notebook_calls :: "(nat \<times> spam_call) list" where
  "notebook_calls =
     [(7, Construct),
      (8, CalibrationCircuits),
      (11, CalculateMatrices),
      (15, CorrectCounts None),
      (20, CorrectCounts (Some ''bayesian'')),
      (23, CalculateMatrices),
      (25, CorrectCounts None),
      (25, CorrectCounts (Some ''bayesian''))]"

text \<open>What the object has been given so far: its calibration circuits and its matrices.\<close>

record spam_state =
  has_circuits :: bool
  has_matrices :: bool

definition new_spam :: spam_state where
  "new_spam = \<lparr>has_circuits = False, has_matrices = False\<rparr>"

fun exec_call :: "spam_call \<Rightarrow> spam_state \<Rightarrow> spam_state" where
  "exec_call Construct s = new_spam"
| "exec_call CalibrationCircuits s = s\<lparr>has_circuits := True\<rparr>"
| "exec_call CalculateMatrices s = s\<lparr>has_matrices := True\<rparr>"
| "exec_call (CorrectCounts m) s = s"

fun is_correct_counts :: "spam_call \<Rightarrow> bool" where
  "is_correct_counts (CorrectCounts m) = True"
| "is_correct_counts c = False"

text \<open>The state in which the \<open>i\<close>-th call of a run is made.\<close>

definition state_before :: "spam_call list \<Rightarrow> nat \<Rightarrow> spam_state" where
  "state_before calls i = fold exec_call (take i calls) new_spam"

subsection \<open>SpamCorrecter, from the specification\<close>

text \<open>
  The code of \<open>SpamCorrecter\<close> is in \<open>pytket.utils.spam\<close> and not in the notebook, which
  only calls it. What is stated about it below is taken from section 4.1 of the specification.
\<close>

type_synonym qubit = nat

text \<open>
  Modelled from the spec: the circuits that \<open>calibration_circuits\<close> returns, which the
  notebook only counts. A circuit prepares basis states on qubits and measures qubits.
\<close>

record calibration_circuit =
  prepared :: "(qubit \<times> bool) list"
  measured :: "qubit list"

text \<open>
  Modelled from the spec: "all \<open>2^k\<close> basis-state preparation circuits" of a subset of size
  \<open>k\<close>, as the \<open>2^k\<close> computational basis states of \<open>k\<close> qubits.
\<close>

fun basis_states :: "nat \<Rightarrow> bool list list" where
  "basis_states 0 = [[]]"
| "basis_states (Suc k) = map ((#) False) (basis_states k) @ map ((#) True) (basis_states k)"

text \<open>
  Modelled from the spec: "preparing each computational basis state on that subset, identity
  elsewhere, followed by measurement of all qubits in the subset".
\<close>

definition prepare_on :: "qubit list \<Rightarrow> bool list \<Rightarrow> calibration_circuit \<Rightarrow> calibration_circuit" where
  "prepare_on qs b c = \<lparr>prepared = zip qs b @ prepared c, measured = qs @ measured c\<rparr>"

text \<open>
  Modelled from the spec: \<open>SpamCorrecter.calibration_circuits\<close>. "For each subset of size
  \<open>k\<close>, produce all \<open>2^k\<close> basis-state preparation circuits; total calibration circuits =
  product of \<open>2^(|subset_i|)\<close> over all subsets": one circuit for each choice of a basis
  state on every subset.
\<close>

fun calibration_circuits :: "qubit list list \<Rightarrow> calibration_circuit list" where
  "calibration_circuits [] = [\<lparr>prepared = [], measured = []\<rparr>]"
| "calibration_circuits (qs # subsets) =
     concat (map (\<lambda>b. map (prepare_on qs b) (calibration_circuits subsets))
                 (basis_states (length qs)))"

text \<open>
  Cell 7: \<open>SpamCorrecter([ourense_node_subsets])\<close>, where \<open>ourense_node_subsets\<close> is the
  list of the nodes of the 5-qubit device.
\<close>

definition ourense_node_subsets :: "qubit list" where
  "ourense_node_subsets = [0, 1, 2, 3, 4]"

text \<open>
  Modelled from the spec: the correction strategies of \<open>SpamCorrecter.correct_counts\<close>,
  "minimise", "invert" and "bayesian".
\<close>

datatype correction_method = Minimise | Invert | Bayesian

text \<open>Modelled from the spec: the names by which the strategies are selected.\<close>

definition correction_methods :: "(string \<times> correction_method) list" where
  "correction_methods = [(''minimise'', Minimise), (''invert'', Invert), (''bayesian'', Bayesian)]"

text \<open>
  Modelled from the spec: the \<open>method\<close> parameter of \<open>SpamCorrecter.correct_counts\<close>.
  "minimise" is the default, used when the call gives no method (as in cells 15 and 25);
  a name that is not in the table selects nothing.
\<close>

definition select_method :: "string option \<Rightarrow> correction_method option" where
  "select_method arg = (case arg of None \<Rightarrow> Some Minimise | Some name \<Rightarrow> map_of correction_methods name)"

section \<open>Properties of JSD\<close>

lemma length_np_divide: "np_divide a c = Some b \<Longrightarrow> length b = length a"
  by (auto simp: np_divide_def split: if_splits)

lemma map2_mean_commute:
  "map2 (\<lambda>p q. 0.5 * (p + q)) xs ys = map2 (\<lambda>p q. 0.5 * (p + q)) ys (xs :: real list)"
proof (induction xs arbitrary: ys)
  case Nil
  then show ?case by simp
next
  case (Cons x xs)
  then show ?case by (cases ys) (simp_all add: add.commute)
qed

lemma half_sum_commute: "half_sum a b = half_sum b a"
  by (cases a; cases b) (simp_all add: half_sum_def add.commute)

lemma entropy_same_length:
  "length qk = length pk \<Longrightarrow> \<exists>e. entropy pk qk = Inr e"
  by (simp add: entropy_def)

lemma JSD_value:
  assumes "length P = length Q"
    and "np_divide P (norm1 P) = Some P'" and "np_divide Q (norm1 Q) = Some Q'"
    and "entropy P' (map2 (\<lambda>p q. 0.5 * (p + q)) P' Q') = Inr e1"
    and "entropy Q' (map2 (\<lambda>p q. 0.5 * (p + q)) P' Q') = Inr e2"
  shows "JSD P Q = Inr (half_sum e1 e2)"
  using assms by (simp add: JSD_def Let_def)

lemma JSD_nonfinite:
  assumes "length P = length Q"
    and "np_divide P (norm1 P) = None \<or> np_divide Q (norm1 Q) = None"
  shows "JSD P Q = Inr None"
  using assms by (auto simp: JSD_def split: option.splits)

text \<open>
  C4: the function is symmetric. For vectors \<open>P\<close> and \<open>Q\<close> of equal length with positive
  L1 norm, \<open>JSD(P, Q)\<close> and \<open>JSD(Q, P)\<close> raise no exception and return the same value (the same
  number, or a special value in both cases).
\<close>

theorem JSD_symmetric:
  assumes len: "length P = length Q" and "0 < norm1 P" and "0 < norm1 Q"
  shows "\<exists>r. JSD P Q = Inr r \<and> JSD Q P = Inr r"
proof (cases "np_divide P (norm1 P) = None \<or> np_divide Q (norm1 Q) = None")
  case True
  then have "JSD P Q = Inr None" and "JSD Q P = Inr None"
    using len by (auto intro: JSD_nonfinite)
  then show ?thesis by simp
next
  case False
  then obtain P' Q' where P': "np_divide P (norm1 P) = Some P'"
    and Q': "np_divide Q (norm1 Q) = Some Q'"
    by auto
  let ?M = "map2 (\<lambda>p q. 0.5 * (p + q)) P' Q'"
  have lP: "length P' = length P" using P' by (rule length_np_divide)
  have lQ: "length Q' = length Q" using Q' by (rule length_np_divide)
  have lM: "length ?M = length P'" "length ?M = length Q'"
    using lP lQ len by simp_all
  obtain e1 where e1: "entropy P' ?M = Inr e1"
    using entropy_same_length[OF lM(1)] by blast
  obtain e2 where e2: "entropy Q' ?M = Inr e2"
    using entropy_same_length[OF lM(2)] by blast
  have M: "map2 (\<lambda>p q. 0.5 * (p + q)) Q' P' = ?M"
    by (rule map2_mean_commute)
  have "JSD P Q = Inr (half_sum e1 e2)"
    using len P' Q' e1 e2 by (rule JSD_value)
  moreover have "JSD Q P = Inr (half_sum e2 e1)"
    using len[symmetric] Q' P' e2[folded M] e1[folded M] by (rule JSD_value)
  ultimately show ?thesis by (simp add: half_sum_commute)
qed

theorem JSD_symmetric_witness:
  "length [3, 1 :: real] = length [1, 1 :: real] \<and> 0 < norm1 [3, 1] \<and> 0 < norm1 [1, 1]
   \<and> (\<exists>r. JSD [3, 1] [1, 1] = Inr r \<and> JSD [1, 1] [3, 1] = Inr r)"
proof -
  have h: "length [3, 1 :: real] = length [1, 1 :: real]" "0 < norm1 [3, 1]" "0 < norm1 [1, 1]"
    by (simp_all add: norm1_def)
  show ?thesis using h JSD_symmetric[OF h] by blast
qed

section \<open>The error branch of probs\_from\_counts\<close>

lemma str_int_1: "str_int 1 = ''1''"
  by (simp add: str_int_def str_nat.simps digit_char_def)

text \<open>
  C10: \<open>probs_from_counts\<close> raises IndexError, at the access to the first key, for the empty
  mapping and for no other: for a non-empty mapping that error is not reached.
\<close>

theorem probs_from_counts_first_key:
  "probs_from_counts counts = Inl IndexError \<longleftrightarrow> counts = []"
  by (cases counts) (auto simp: probs_from_counts_def Let_def split: if_splits)

theorem probs_from_counts_first_key_witness:
  "probs_from_counts [] = Inl IndexError
   \<and> [([1], 5)] \<noteq> ([] :: counts) \<and> probs_from_counts [([1], 5)] = Inr (Some [0, 1])
   \<and> probs_from_counts [([1], 5)] \<noteq> Inl IndexError"
proof -
  have v: "probs_from_counts [([1], 5)] = Inr (Some [0, 1])"
    by (simp add: probs_from_counts_def counts_dict_of_def dict_get_def join_str_def
        str_int_1 np_divide_def)
  show ?thesis
    using v probs_from_counts_first_key[of "[]"] probs_from_counts_first_key[of "[([1], 5)]"]
    by simp
qed

section \<open>The order of the calls in the notebook\<close>

text \<open>
  C7: every call of \<open>correct_counts\<close> in the notebook is made in a state in which
  \<open>calculate_matrices\<close> has run: a call of \<open>calculate_matrices\<close> in a cell of smaller
  execution count precedes it.
\<close>

theorem matrices_before_correction:
  "\<forall>i<length notebook_calls. is_correct_counts (snd (notebook_calls ! i)) \<longrightarrow>
     has_matrices (state_before (map snd notebook_calls) i)
     \<and> (\<exists>j<i. snd (notebook_calls ! j) = CalculateMatrices
               \<and> fst (notebook_calls ! j) < fst (notebook_calls ! i))"
proof (intro allI impI)
  fix i assume "i < length notebook_calls" and c: "is_correct_counts (snd (notebook_calls ! i))"
  then have "i \<in> {0, 1, 2, 3, 4, 5, 6, 7}" by (auto simp: notebook_calls_def)
  then consider "i = 3" | "i = 4" | "i = 6" | "i = 7"
    using c by (auto simp: notebook_calls_def)
  then show "has_matrices (state_before (map snd notebook_calls) i)
     \<and> (\<exists>j<i. snd (notebook_calls ! j) = CalculateMatrices
               \<and> fst (notebook_calls ! j) < fst (notebook_calls ! i))"
  proof cases
    case 1
    then show ?thesis
      by (auto simp: notebook_calls_def state_before_def new_spam_def numeral_3_eq_3 intro!: exI[of _ 2])
  next
    case 2
    then show ?thesis
      by (auto simp: notebook_calls_def state_before_def new_spam_def eval_nat_numeral intro!: exI[of _ 2])
  next
    case 3
    then show ?thesis
      by (auto simp: notebook_calls_def state_before_def new_spam_def eval_nat_numeral intro!: exI[of _ 5])
  next
    case 4
    then show ?thesis
      by (auto simp: notebook_calls_def state_before_def new_spam_def eval_nat_numeral intro!: exI[of _ 5])
  qed
qed

theorem matrices_before_correction_witness:
  "3 < length notebook_calls \<and> is_correct_counts (snd (notebook_calls ! 3))
   \<and> has_matrices (state_before (map snd notebook_calls) 3)
   \<and> (\<exists>j<3. snd (notebook_calls ! j) = CalculateMatrices
             \<and> fst (notebook_calls ! j) < fst (notebook_calls ! 3))"
proof -
  have h: "3 < length notebook_calls" "is_correct_counts (snd (notebook_calls ! 3))"
    by (simp_all add: notebook_calls_def)
  show ?thesis using h matrices_before_correction[rule_format, OF h] by blast
qed

section \<open>SpamCorrecter as specified\<close>

lemma length_basis_states: "length (basis_states k) = 2 ^ k"
  by (induction k) simp_all

lemma length_concat_const:
  "(\<And>x. x \<in> set xs \<Longrightarrow> length (f x) = n) \<Longrightarrow> length (concat (map f xs)) = length xs * n"
  by (induction xs) simp_all

text \<open>
  C1: \<open>calibration_circuits\<close> returns the product over the subsets of \<open>2^(|subset_i|)\<close>
  circuits, and 32 circuits for the single subset of the five nodes of the notebook
  (the number that cell 8 prints).
\<close>

theorem calibration_circuits_count:
  "length (calibration_circuits subsets) = prod_list (map (\<lambda>qs. 2 ^ length qs) subsets)
   \<and> length (calibration_circuits [ourense_node_subsets]) = 32"
proof -
  have g: "length (calibration_circuits ss) = prod_list (map (\<lambda>qs. 2 ^ length qs) ss)" for ss
    by (induction ss) (simp_all add: length_concat_const length_basis_states)
  show ?thesis by (simp add: g ourense_node_subsets_def)
qed

text \<open>
  C6: exactly three correction methods can be selected, by the names \<open>'minimise'\<close>,
  \<open>'invert'\<close> and \<open>'bayesian'\<close>, and a call without a method uses \<open>'minimise'\<close>.
\<close>

theorem correction_methods_selectable:
  "{name. select_method (Some name) \<noteq> None} = {''minimise'', ''invert'', ''bayesian''}
   \<and> select_method (Some ''minimise'') = Some Minimise
   \<and> select_method (Some ''invert'') = Some Invert
   \<and> select_method (Some ''bayesian'') = Some Bayesian
   \<and> select_method None = Some Minimise"
  by (auto simp: select_method_def correction_methods_def split: if_splits)

end
